theory Spec2Isabelle
  imports Main "HOL-Library.Word"
begin

section \<open>Go strings\<close>

text \<open>
  A Go string is a sequence of bytes; it is modelled as \<open>string\<close>, whose characters
  are bytes. The helpers below are the functions of package \<^verbatim>\<open>strings\<close> that the
  provider and \<^verbatim>\<open>net/url\<close> call.
\<close>

definition byte :: "char \<Rightarrow> nat" where
  "byte c = of_char c"

definition HasPrefix :: "string \<Rightarrow> string \<Rightarrow> bool" where
  "HasPrefix s pre = (take (length pre) s = pre)"

definition HasSuffix :: "string \<Rightarrow> string \<Rightarrow> bool" where
  "HasSuffix s suf = (length suf \<le> length s \<and> drop (length s - length suf) s = suf)"

fun Index :: "string \<Rightarrow> string \<Rightarrow> nat option" where
  "Index [] sep = (if sep = [] then Some 0 else None)"
| "Index (c # cs) sep =
     (if HasPrefix (c # cs) sep then Some 0 else map_option Suc (Index cs sep))"

fun LastIndex_from :: "nat \<Rightarrow> string \<Rightarrow> string \<Rightarrow> nat option" where
  "LastIndex_from i [] sep = (if sep = [] then Some i else None)"
| "LastIndex_from i (c # cs) sep =
     (case LastIndex_from (Suc i) cs sep of
        Some j \<Rightarrow> Some j
      | None \<Rightarrow> if HasPrefix (c # cs) sep then Some i else None)"

definition LastIndex :: "string \<Rightarrow> string \<Rightarrow> nat option" where
  "LastIndex s sep = LastIndex_from 0 s sep"

definition Contains :: "string \<Rightarrow> string \<Rightarrow> bool" where
  "Contains s sep = (Index s sep \<noteq> None)"

text \<open>\<^verbatim>\<open>strings.Cut(s, sep)\<close>: the text before and after the first \<open>sep\<close>, and whether it was found.\<close>

definition Cut :: "string \<Rightarrow> string \<Rightarrow> string \<times> string \<times> bool" where
  "Cut s sep =
     (case Index s sep of
        Some i \<Rightarrow> (take i s, drop (i + length sep) s, True)
      | None \<Rightarrow> (s, [], False))"

text \<open>\<^verbatim>\<open>strings.Count(s, sep)\<close> for a separator of one byte.\<close>

definition CountByte :: "string \<Rightarrow> char \<Rightarrow> nat" where
  "CountByte s c = length (filter (\<lambda>b. b = c) s)"

section \<open>The URL parser of the Go standard library\<close>

text \<open>
  \<^verbatim>\<open>isValidHTTPURL\<close> calls \<^verbatim>\<open>url.Parse\<close> of package \<^verbatim>\<open>net/url\<close>. The
  functions of this section follow that package function by function:
  \<^verbatim>\<open>getScheme\<close>, \<^verbatim>\<open>shouldEscape\<close>, \<^verbatim>\<open>unescape\<close>, \<^verbatim>\<open>validOptionalPort\<close>,
  \<^verbatim>\<open>validUserinfo\<close>, \<^verbatim>\<open>parseHost\<close>, \<^verbatim>\<open>parseAuthority\<close>, \<^verbatim>\<open>parse\<close>,
  \<^verbatim>\<open>setPath\<close>, \<^verbatim>\<open>setFragment\<close> and \<^verbatim>\<open>Parse\<close>. The fields \<^verbatim>\<open>RawPath\<close> and
  \<^verbatim>\<open>RawFragment\<close> of \<^verbatim>\<open>url.URL\<close> are encoding hints which no caller in this
  repository reads and which never decide whether parsing succeeds; they are left out.
  A failed parse returns a nil \<^verbatim>\<open>*URL\<close> together with the error: here \<open>Inl\<close>.
\<close>

datatype url_error =
    InvalidControlCharacter
  | EmptyURL
  | MissingProtocolScheme
  | InvalidURIForRequest
  | FirstPathSegmentColon
  | MissingBracketInHost
  | InvalidPort string
  | InvalidUserinfo
  | EscapeError string
  | InvalidHostError string

datatype encoding =
    encodePath
  | encodePathSegment
  | encodeHost
  | encodeZone
  | encodeUserPassword
  | encodeQueryComponent
  | encodeFragment

datatype Userinfo = Userinfo (username: string) (passwd: string) (passwordSet: bool)

record URL =
  Scheme :: string
  Opaque :: string
  User :: "Userinfo option"
  Host :: string
  Path :: string
  OmitHost :: bool
  ForceQuery :: bool
  RawQuery :: string
  Fragment :: string

definition new_URL :: URL where
  "new_URL = \<lparr>Scheme = [], Opaque = [], User = None, Host = [], Path = [],
     OmitHost = False, ForceQuery = False, RawQuery = [], Fragment = []\<rparr>"

definition isLower :: "char \<Rightarrow> bool" where
  "isLower c = (byte CHR ''a'' \<le> byte c \<and> byte c \<le> byte CHR ''z'')"

definition isUpper :: "char \<Rightarrow> bool" where
  "isUpper c = (byte CHR ''A'' \<le> byte c \<and> byte c \<le> byte CHR ''Z'')"

definition isDigit :: "char \<Rightarrow> bool" where
  "isDigit c = (byte CHR ''0'' \<le> byte c \<and> byte c \<le> byte CHR ''9'')"

text \<open>\<^verbatim>\<open>strings.ToLower\<close> on the scheme, which \<^verbatim>\<open>getScheme\<close> keeps within ASCII.\<close>

definition ToLower :: "string \<Rightarrow> string" where
  "ToLower s = map (\<lambda>c. if isUpper c then char_of (byte c + 32) else c) s"

definition stringContainsCTLByte :: "string \<Rightarrow> bool" where
  "stringContainsCTLByte s = list_ex (\<lambda>b. byte b < 32 \<or> byte b = 127) s"

fun getScheme_loop :: "string \<Rightarrow> nat \<Rightarrow> string \<Rightarrow> url_error + string \<times> string" where
  "getScheme_loop rawURL i [] = Inr ([], rawURL)"
| "getScheme_loop rawURL i (c # cs) =
     (if isLower c \<or> isUpper c then getScheme_loop rawURL (Suc i) cs
      else if isDigit c \<or> c = CHR ''+'' \<or> c = CHR ''-'' \<or> c = CHR ''.'' then
        (if i = 0 then Inr ([], rawURL) else getScheme_loop rawURL (Suc i) cs)
      else if c = CHR '':'' then
        (if i = 0 then Inl MissingProtocolScheme
         else Inr (take i rawURL, drop (Suc i) rawURL))
      else Inr ([], rawURL))"

definition getScheme :: "string \<Rightarrow> url_error + string \<times> string" where
  "getScheme rawURL = getScheme_loop rawURL 0 rawURL"

definition ishex :: "char \<Rightarrow> bool" where
  "ishex c =
     (isDigit c
      \<or> (byte CHR ''a'' \<le> byte c \<and> byte c \<le> byte CHR ''f'')
      \<or> (byte CHR ''A'' \<le> byte c \<and> byte c \<le> byte CHR ''F''))"

definition unhex :: "char \<Rightarrow> nat" where
  "unhex c =
     (if isDigit c then byte c - byte CHR ''0''
      else if byte CHR ''a'' \<le> byte c \<and> byte c \<le> byte CHR ''f'' then byte c - byte CHR ''a'' + 10
      else if byte CHR ''A'' \<le> byte c \<and> byte c \<le> byte CHR ''F'' then byte c - byte CHR ''A'' + 10
      else 0)"

definition shouldEscape :: "char \<Rightarrow> encoding \<Rightarrow> bool" where
  "shouldEscape c mode =
     (if isLower c \<or> isUpper c \<or> isDigit c then False
      else if (mode = encodeHost \<or> mode = encodeZone)
              \<and> c \<in> set (''!$&()*+,;=:[]<>'' @ [CHR 0x27, CHR 0x22]) then False
      else if c \<in> set ''-_.~'' then False
      else if c \<in> set ''$&+,/:;=?@'' \<and> mode = encodePath then c = CHR ''?''
      else if c \<in> set ''$&+,/:;=?@'' \<and> mode = encodePathSegment then c \<in> set ''/;,?''
      else if c \<in> set ''$&+,/:;=?@'' \<and> mode = encodeUserPassword then c \<in> set ''@/?:''
      else if c \<in> set ''$&+,/:;=?@'' \<and> mode = encodeQueryComponent then True
      else if c \<in> set ''$&+,/:;=?@'' \<and> mode = encodeFragment then False
      else if mode = encodeFragment \<and> c \<in> set ''!()*'' then False
      else True)"

definition consR :: "char \<Rightarrow> url_error + string \<Rightarrow> url_error + string" where
  "consR c r = (case r of Inl e \<Rightarrow> Inl e | Inr t \<Rightarrow> Inr (c # t))"

fun unescape :: "string \<Rightarrow> encoding \<Rightarrow> url_error + string" where
  "unescape [] mode = Inr []"
| "unescape (c # cs) mode =
     (if c = CHR ''%'' then
        (case cs of
           h1 # h2 # rest \<Rightarrow>
             (if \<not> ishex h1 \<or> \<not> ishex h2 then Inl (EscapeError [c, h1, h2])
              else if mode = encodeHost \<and> unhex h1 < 8 \<and> [c, h1, h2] \<noteq> ''%25''
                then Inl (EscapeError [c, h1, h2])
              else if mode = encodeZone \<and> [c, h1, h2] \<noteq> ''%25''
                      \<and> unhex h1 * 16 + unhex h2 \<noteq> 32
                      \<and> shouldEscape (char_of (unhex h1 * 16 + unhex h2)) encodeHost
                then Inl (EscapeError [c, h1, h2])
              else consR (char_of (unhex h1 * 16 + unhex h2)) (unescape rest mode))
         | _ \<Rightarrow> Inl (EscapeError (c # cs)))
      else if c = CHR ''+'' then
        consR (if mode = encodeQueryComponent then CHR '' '' else c) (unescape cs mode)
      else if (mode = encodeHost \<or> mode = encodeZone) \<and> byte c < 128
              \<and> shouldEscape c encodeHost then Inl (InvalidHostError [c])
      else consR c (unescape cs mode))"

definition validOptionalPort :: "string \<Rightarrow> bool" where
  "validOptionalPort port =
     (case port of
        [] \<Rightarrow> True
      | c # ds \<Rightarrow> c = CHR '':'' \<and> list_all isDigit ds)"

definition validUserinfo :: "string \<Rightarrow> bool" where
  "validUserinfo s =
     list_all (\<lambda>r. isUpper r \<or> isLower r \<or> isDigit r
                   \<or> r \<in> set (''-._:~!$&()*+,;=%@'' @ [CHR 0x27])) s"

definition parseHost :: "string \<Rightarrow> url_error + string" where
  "parseHost host =
     (let plain = unescape host encodeHost in
      if HasPrefix host ''['' then
        (case LastIndex host '']'' of
           None \<Rightarrow> Inl MissingBracketInHost
         | Some i \<Rightarrow>
             (let colonPort = drop (Suc i) host in
              if \<not> validOptionalPort colonPort then Inl (InvalidPort colonPort)
              else
                (case Index (take i host) ''%25'' of
                   Some zone \<Rightarrow>
                     (case unescape (take zone host) encodeHost of
                        Inl e \<Rightarrow> Inl e
                      | Inr host1 \<Rightarrow>
                          (case unescape (drop zone (take i host)) encodeZone of
                             Inl e \<Rightarrow> Inl e
                           | Inr host2 \<Rightarrow>
                               (case unescape (drop i host) encodeHost of
                                  Inl e \<Rightarrow> Inl e
                                | Inr host3 \<Rightarrow> Inr (host1 @ host2 @ host3))))
                 | None \<Rightarrow> plain)))
      else
        (case LastIndex host '':'' of
           Some i \<Rightarrow>
             (let colonPort = drop i host in
              if \<not> validOptionalPort colonPort then Inl (InvalidPort colonPort) else plain)
         | None \<Rightarrow> plain))"

definition parseAuthority :: "string \<Rightarrow> url_error + (Userinfo option \<times> string)" where
  "parseAuthority authority =
     (let i = LastIndex authority ''@'' in
      case parseHost (case i of None \<Rightarrow> authority | Some k \<Rightarrow> drop (Suc k) authority) of
        Inl e \<Rightarrow> Inl e
      | Inr host \<Rightarrow>
          (case i of
             None \<Rightarrow> Inr (None, host)
           | Some k \<Rightarrow>
               (let userinfo = take k authority in
                if \<not> validUserinfo userinfo then Inl InvalidUserinfo
                else if \<not> Contains userinfo '':'' then
                  (case unescape userinfo encodeUserPassword of
                     Inl e \<Rightarrow> Inl e
                   | Inr name \<Rightarrow> Inr (Some (Userinfo name [] False), host))
                else
                  (case Cut userinfo '':'' of
                     (name0, password0, _) \<Rightarrow>
                       (case unescape name0 encodeUserPassword of
                          Inl e \<Rightarrow> Inl e
                        | Inr name \<Rightarrow>
                            (case unescape password0 encodeUserPassword of
                               Inl e \<Rightarrow> Inl e
                             | Inr pw \<Rightarrow> Inr (Some (Userinfo name pw True), host)))))))"

definition setPath :: "URL \<Rightarrow> string \<Rightarrow> url_error + URL" where
  "setPath u p =
     (case unescape p encodePath of
        Inl e \<Rightarrow> Inl e
      | Inr path \<Rightarrow> Inr (u\<lparr>Path := path\<rparr>))"

definition setFragment :: "URL \<Rightarrow> string \<Rightarrow> url_error + URL" where
  "setFragment u f =
     (case unescape f encodeFragment of
        Inl e \<Rightarrow> Inl e
      | Inr frag \<Rightarrow> Inr (u\<lparr>Fragment := frag\<rparr>))"

definition parse :: "string \<Rightarrow> bool \<Rightarrow> url_error + URL" where
  "parse rawURL viaRequest =
     (if stringContainsCTLByte rawURL then Inl InvalidControlCharacter
      else if rawURL = [] \<and> viaRequest then Inl EmptyURL
      else if rawURL = ''*'' then Inr (new_URL\<lparr>Path := ''*''\<rparr>)
      else
        (case getScheme rawURL of
           Inl e \<Rightarrow> Inl e
         | Inr (scheme, rest0) \<Rightarrow>
             (let u = new_URL\<lparr>Scheme := ToLower scheme\<rparr>;
                  force = (HasSuffix rest0 ''?'' \<and> CountByte rest0 CHR ''?'' = 1);
                  rest = (if force then butlast rest0 else fst (Cut rest0 ''?''));
                  u = (if force then u\<lparr>ForceQuery := True\<rparr>
                       else u\<lparr>RawQuery := fst (snd (Cut rest0 ''?''))\<rparr>)
              in
              if \<not> HasPrefix rest ''/'' \<and> Scheme u \<noteq> [] then Inr (u\<lparr>Opaque := rest\<rparr>)
              else if \<not> HasPrefix rest ''/'' \<and> viaRequest then Inl InvalidURIForRequest
              else if \<not> HasPrefix rest ''/'' \<and> Contains (fst (Cut rest ''/'')) '':''
                then Inl FirstPathSegmentColon
              else if (Scheme u \<noteq> [] \<or> \<not> viaRequest \<and> \<not> HasPrefix rest ''///'')
                      \<and> HasPrefix rest ''//'' then
                (let authority0 = drop 2 rest;
                     authority = (case Index authority0 ''/'' of
                                    None \<Rightarrow> authority0 | Some i \<Rightarrow> take i authority0);
                     rest' = (case Index authority0 ''/'' of
                                None \<Rightarrow> [] | Some i \<Rightarrow> drop i authority0)
                 in case parseAuthority authority of
                      Inl e \<Rightarrow> Inl e
                    | Inr (usr, host) \<Rightarrow> setPath (u\<lparr>User := usr, Host := host\<rparr>) rest')
              else if Scheme u \<noteq> [] \<and> HasPrefix rest ''/'' then
                setPath (u\<lparr>OmitHost := True\<rparr>) rest
              else setPath u rest)))"

definition Parse :: "string \<Rightarrow> url_error + URL" where
  "Parse rawURL =
     (case Cut rawURL ''#'' of
        (u, frag, _) \<Rightarrow>
          (case parse u False of
             Inl e \<Rightarrow> Inl e
           | Inr url \<Rightarrow> if frag = [] then Inr url else setFragment url frag))"

section \<open>The endpoint validator\<close>

text \<open>
  \<^verbatim>\<open>isValidHTTPURL(val, key)\<close> returns the lists \<^verbatim>\<open>warns\<close> and \<^verbatim>\<open>errs\<close>. When
  \<^verbatim>\<open>url.Parse\<close> fails, the first test appends its error (the test of the scheme is
  cut short by \<^verbatim>\<open>||\<close>), and the second test then reads \<^verbatim>\<open>url.Path\<close> through the
  nil pointer that came with the error: the function panics and returns nothing.
\<close>

datatype validation_error =
    MustBeValidHTTPURL string string
  | ShouldNotContainPathQueryFragment string string

datatype panic = NilPointerDereference

datatype 'a outcome = Panics panic | Returns 'a

fun isValidHTTPURL :: "string \<Rightarrow> string \<Rightarrow> (string list \<times> validation_error list) outcome" where
  "isValidHTTPURL val key =
     (case Parse val of
        Inl err \<Rightarrow> Panics NilPointerDereference
      | Inr url \<Rightarrow>
          (let errs = (if Scheme url \<noteq> ''http'' \<and> Scheme url \<noteq> ''https''
                       then [MustBeValidHTTPURL key val] else []);
               errs = (if Path url \<noteq> [] \<or> RawQuery url \<noteq> [] \<or> Fragment url \<noteq> []
                       then errs @ [ShouldNotContainPathQueryFragment key val] else errs)
           in Returns ([], errs)))"

declare isValidHTTPURL.simps [simp del]

section \<open>The provider's schema and the configuration it reads\<close>

text \<open>
  \<^verbatim>\<open>Provider()\<close> declares eight settings: \<^verbatim>\<open>url\<close> (a required string, validated
  by \<^verbatim>\<open>isValidHTTPURL\<close>), the optional strings \<^verbatim>\<open>user\<close>, \<^verbatim>\<open>password\<close>,
  \<^verbatim>\<open>jwt_token\<close>, \<^verbatim>\<open>api_client_id\<close> and \<^verbatim>\<open>api_client_token\<close>, the optional
  boolean \<^verbatim>\<open>skip_tls\<close>, and the optional integer \<^verbatim>\<open>timeout\<close> with
  \<^verbatim>\<open>Default: 5\<close>. A \<open>ResourceData\<close> holds what the practitioner wrote for each:
  \<open>None\<close> when the setting is left out. Go's \<^verbatim>\<open>int\<close> is the 64-bit integer of the
  usual targets.
\<close>

type_synonym go_int = "64 word"

record ResourceData =
  url :: "string option"
  user :: "string option"
  password :: "string option"
  jwt_token :: "string option"
  api_client_id :: "string option"
  api_client_token :: "string option"
  skip_tls :: "bool option"
  timeout :: "go_int option"

definition timeout_Default :: go_int where
  "timeout_Default = 5"

text \<open>
  The accessors of the plugin SDK's \<^verbatim>\<open>schema.ResourceData\<close>. \<^verbatim>\<open>d.Get(key)\<close> returns
  the value of the schema's type: the configured one, else the schema's default, else
  the zero value of the type. \<^verbatim>\<open>d.GetOk(key)\<close> returns that value together with a flag
  which, as the SDK documents it, tells whether the key "has been set to a non-zero
  value": the flag is false for a setting left out and also for one set to \<^verbatim>\<open>""\<close> or
  to \<^verbatim>\<open>false\<close>. The values come with the schema's type, so the type assertions
  \<^verbatim>\<open>.(string)\<close>, \<^verbatim>\<open>.(bool)\<close> and \<^verbatim>\<open>.(int)\<close> of the provider cannot fail.
\<close>

definition GetOk_String :: "string option \<Rightarrow> string \<times> bool" where
  "GetOk_String v = (case v of None \<Rightarrow> ([], False) | Some s \<Rightarrow> (s, s \<noteq> []))"

definition GetOk_Bool :: "bool option \<Rightarrow> bool \<times> bool" where
  "GetOk_Bool v = (case v of None \<Rightarrow> (False, False) | Some b \<Rightarrow> (b, b))"

definition Get_String :: "string option \<Rightarrow> string" where
  "Get_String v = (case v of None \<Rightarrow> [] | Some s \<Rightarrow> s)"

definition Get_Int :: "go_int \<Rightarrow> go_int option \<Rightarrow> go_int" where
  "Get_Int dflt v = (case v of None \<Rightarrow> dflt | Some n \<Rightarrow> n)"

text \<open>Package \<^verbatim>\<open>time\<close>: a \<^verbatim>\<open>Duration\<close> is a signed 64-bit count of nanoseconds.\<close>

type_synonym Duration = "64 word"

definition Second :: Duration where
  "Second = 1000000000"

section \<open>The client configuration and \<^verbatim>\<open>providerConfigure\<close>\<close>

text \<open>
  \<^verbatim>\<open>pfsenseapi.Config\<close>, with the fields the provider sets; a field it does not set
  keeps Go's zero value. \<^verbatim>\<open>pfsenseapi.NewClient\<close> is the client factory of the API
  library: the handle it returns is modelled by the configuration it was given.
\<close>

record Config =
  Host :: string
  SkipTLS :: bool
  Timeout :: Duration
  JWTAuthEnabled :: bool
  JWTToken :: string
  LocalAuthEnabled :: bool
  User :: string
  Password :: string
  TokenAuthEnabled :: bool
  ApiClientID :: string
  ApiClientToken :: string

datatype Client = NewClient Config

text \<open>
  The four errors of \<^verbatim>\<open>providerConfigure\<close>, by their messages:
  \<^verbatim>\<open>"Cannot enforce TLS for url %s"\<close> (the specification's TLSPolicyConflict),
  \<^verbatim>\<open>"password is required when username is provided"\<close> and
  \<^verbatim>\<open>"api_client_token is required when api_client_id is provided"\<close> (MissingCredential),
  \<^verbatim>\<open>"only one form of authentication should be provided"\<close> (AmbiguousAuth).
\<close>

datatype error =
    CannotEnforceTLS string
  | PasswordRequired
  | ApiClientTokenRequired
  | OnlyOneAuth

definition providerConfigure :: "ResourceData \<Rightarrow> error + Client" where
  "providerConfigure d =
     (let url = Get_String (ResourceData.url d);
          (skipTLSValue, skipTLSExists) = GetOk_Bool (skip_tls d)
      in
      case (if HasPrefix url ''https://'' then
              (if \<not> skipTLSExists then Inr (False, skipTLSExists)
               else Inr (skipTLSValue, skipTLSExists))
            else if \<not> skipTLSExists then Inr (skipTLSValue, True)
            else if \<not> skipTLSValue then Inl (CannotEnforceTLS url)
            else Inr (skipTLSValue, skipTLSExists)) of
        Inl e \<Rightarrow> Inl e
      | Inr (skipTLSValue, skipTLSExists) \<Rightarrow>
          (let c = \<lparr>Host = url, SkipTLS = skipTLSValue,
                    Timeout = Get_Int timeout_Default (timeout d) * Second,
                    JWTAuthEnabled = False, JWTToken = [],
                    LocalAuthEnabled = False, User = [], Password = [],
                    TokenAuthEnabled = False, ApiClientID = [], ApiClientToken = []\<rparr>;
               c = (case GetOk_String (jwt_token d) of
                      (jwtToken, ok) \<Rightarrow>
                        if ok then c\<lparr>JWTAuthEnabled := True, JWTToken := jwtToken\<rparr> else c)
           in
           case (case GetOk_String (user d) of
                   (usr, ok) \<Rightarrow>
                     if ok then
                       (case GetOk_String (password d) of
                          (pwd, ok) \<Rightarrow>
                            if \<not> ok then Inl PasswordRequired
                            else Inr (c\<lparr>LocalAuthEnabled := True, User := usr, Password := pwd\<rparr>))
                     else Inr c) of
             Inl e \<Rightarrow> Inl e
           | Inr c \<Rightarrow>
               (case (case GetOk_String (api_client_id d) of
                        (clientID, ok) \<Rightarrow>
                          if ok then
                            (case GetOk_String (api_client_token d) of
                               (clientToken, ok) \<Rightarrow>
                                 if \<not> ok then Inl ApiClientTokenRequired
                                 else Inr (c\<lparr>TokenAuthEnabled := True, ApiClientID := clientID,
                                              ApiClientToken := clientToken\<rparr>))
                          else Inr c) of
                  Inl e \<Rightarrow> Inl e
                | Inr c \<Rightarrow>
                    (let authCount = (0::nat);
                         authCount = (if JWTAuthEnabled c then authCount + 1 else authCount);
                         authCount = (if LocalAuthEnabled c then authCount + 1 else authCount);
                         authCount = (if TokenAuthEnabled c then authCount + 1 else authCount)
                     in if authCount > 1 then Inl OnlyOneAuth else Inr (NewClient c)))))"

text \<open>
  Presence of a string setting, as the header comment of the provider uses the word
  ("inferred from the presence of \<^verbatim>\<open>jwt_token\<close>"): the flag that \<^verbatim>\<open>d.GetOk\<close> returns.
\<close>

definition present :: "string option \<Rightarrow> bool" where
  "present v = snd (GetOk_String v)"

text \<open>The configuration in which every setting is left out; the examples below update it.\<close>

definition unset :: ResourceData where
  "unset = \<lparr>url = None, user = None, password = None, jwt_token = None,
     api_client_id = None, api_client_token = None, skip_tls = None, timeout = None\<rparr>"

section \<open>Properties of the accessors and of \<^verbatim>\<open>providerConfigure\<close>\<close>

lemma present_simps: "present None = False" "present (Some s) = (s \<noteq> [])"
  by (simp_all add: present_def GetOk_String_def)

lemma unset_simps:
  "url unset = None" "user unset = None" "password unset = None" "jwt_token unset = None"
  "api_client_id unset = None" "api_client_token unset = None" "skip_tls unset = None"
  "timeout unset = None"
  by (simp_all add: unset_def)

text \<open>
  The whole of \<^verbatim>\<open>providerConfigure\<close> in one equation: the two missing-credential
  checks come first, in the order of the source, then the count of the enabled modes.
  The flag \<^verbatim>\<open>SkipTLS\<close> is true exactly when \<^verbatim>\<open>skip_tls\<close> was set to \<^verbatim>\<open>true\<close>.
\<close>

lemma providerConfigure_cases:
  "providerConfigure d =
     (if present (user d) \<and> \<not> present (password d) then Inl PasswordRequired
      else if present (api_client_id d) \<and> \<not> present (api_client_token d)
        then Inl ApiClientTokenRequired
      else if (present (jwt_token d) \<and> present (user d))
              \<or> (present (jwt_token d) \<and> present (api_client_id d))
              \<or> (present (user d) \<and> present (api_client_id d)) then Inl OnlyOneAuth
      else Inr (NewClient
        \<lparr>Host = Get_String (url d),
         SkipTLS = (skip_tls d = Some True),
         Timeout = Get_Int timeout_Default (timeout d) * Second,
         JWTAuthEnabled = present (jwt_token d),
         JWTToken = (if present (jwt_token d) then Get_String (jwt_token d) else []),
         LocalAuthEnabled = present (user d),
         User = (if present (user d) then Get_String (user d) else []),
         Password = (if present (user d) then Get_String (password d) else []),
         TokenAuthEnabled = present (api_client_id d),
         ApiClientID = (if present (api_client_id d) then Get_String (api_client_id d) else []),
         ApiClientToken =
           (if present (api_client_id d) then Get_String (api_client_token d) else [])\<rparr>))"
  by (auto simp: providerConfigure_def present_def GetOk_String_def GetOk_Bool_def
        Get_String_def Let_def split: option.splits)

text \<open>
  The branch that returns "Cannot enforce TLS" needs \<^verbatim>\<open>skipTLSExists\<close> true and
  \<^verbatim>\<open>skipTLSValue\<close> false at once, which \<^verbatim>\<open>GetOk\<close> never returns: no configuration
  reaches it.
\<close>

lemma CannotEnforceTLS_unreachable: "providerConfigure d \<noteq> Inl (CannotEnforceTLS u)"
  by (simp add: providerConfigure_cases)

text \<open>
  What \<^verbatim>\<open>GetOk\<close> makes of a zero value: a string setting given as \<^verbatim>\<open>""\<close>, and
  \<^verbatim>\<open>skip_tls\<close> given as \<^verbatim>\<open>false\<close>, are resolved exactly as the setting left out.
\<close>

lemma zero_value_reads_as_unset:
  "providerConfigure (d\<lparr>jwt_token := Some []\<rparr>) = providerConfigure (d\<lparr>jwt_token := None\<rparr>)"
  "providerConfigure (d\<lparr>user := Some []\<rparr>) = providerConfigure (d\<lparr>user := None\<rparr>)"
  "providerConfigure (d\<lparr>password := Some []\<rparr>) = providerConfigure (d\<lparr>password := None\<rparr>)"
  "providerConfigure (d\<lparr>api_client_id := Some []\<rparr>) =
     providerConfigure (d\<lparr>api_client_id := None\<rparr>)"
  "providerConfigure (d\<lparr>api_client_token := Some []\<rparr>) =
     providerConfigure (d\<lparr>api_client_token := None\<rparr>)"
  "providerConfigure (d\<lparr>skip_tls := Some False\<rparr>) = providerConfigure (d\<lparr>skip_tls := None\<rparr>)"
  by (simp_all add: providerConfigure_cases present_simps Get_String_def)

lemma SkipTLS_only_when_set_true:
  "providerConfigure d = Inr (NewClient c) \<Longrightarrow> SkipTLS c = (skip_tls d = Some True)"
  by (auto simp: providerConfigure_cases split: if_splits)

lemma Timeout_of_client:
  "providerConfigure d = Inr (NewClient c) \<Longrightarrow>
     Timeout c = Get_Int timeout_Default (timeout d) * Second"
  by (auto simp: providerConfigure_cases split: if_splits)

subsection \<open>Durations\<close>

lemma sint_mult_in_range:
  fixes a b :: "64 word"
  assumes "- (2 ^ 63) \<le> sint a * sint b" and "sint a * sint b < 2 ^ 63"
  shows "sint (a * b) = sint a * sint b"
  using assms by (simp add: sint_word_ariths signed_take_bit_int_eq_self)

lemma sint_Second: "sint Second = 1000000000"
  by (simp add: Second_def)

lemma seconds_in_range:
  fixes n :: go_int
  assumes "- 9223372036 \<le> sint n" and "sint n \<le> 9223372036"
  shows "sint (n * Second) = sint n * 1000000000"
proof -
  have "- (2 ^ 63) \<le> sint n * sint Second" "sint n * sint Second < 2 ^ 63"
    using assms by (simp_all add: sint_Second)
  then show ?thesis
    using sint_mult_in_range [of n Second] by (simp add: sint_Second)
qed

subsection \<open>The validator on parsed and on unparsed input\<close>

lemma isValidHTTPURL_parse_fails:
  "Parse s = Inl e \<Longrightarrow> isValidHTTPURL s k = Panics NilPointerDereference"
  by (simp add: isValidHTTPURL.simps)

lemma isValidHTTPURL_parsed:
  "Parse s = Inr u \<Longrightarrow>
     isValidHTTPURL s k =
       Returns ([],
         (if Scheme u \<noteq> ''http'' \<and> Scheme u \<noteq> ''https'' then [MustBeValidHTTPURL k s] else [])
         @ (if Path u \<noteq> [] \<or> RawQuery u \<noteq> [] \<or> Fragment u \<noteq> []
            then [ShouldNotContainPathQueryFragment k s] else []))"
  by (simp add: isValidHTTPURL.simps)

lemma isValidHTTPURL_accepts_iff:
  "isValidHTTPURL s k = Returns ([], []) \<longleftrightarrow>
     (\<exists>u. Parse s = Inr u \<and> (Scheme u = ''http'' \<or> Scheme u = ''https'')
          \<and> Path u = [] \<and> RawQuery u = [] \<and> Fragment u = [])"
proof (cases "Parse s")
  case (Inl e)
  then show ?thesis by (simp add: isValidHTTPURL_parse_fails)
next
  case (Inr u)
  then show ?thesis by (auto simp: isValidHTTPURL_parsed)
qed

lemma isValidHTTPURL_rejects_components:
  assumes "Parse s = Inr u" and "Path u \<noteq> [] \<or> RawQuery u \<noteq> [] \<or> Fragment u \<noteq> []"
  shows "\<exists>errs. isValidHTTPURL s k = Returns ([], errs)
           \<and> ShouldNotContainPathQueryFragment k s \<in> set errs"
  using assms by (auto simp: isValidHTTPURL_parsed)

subsection \<open>Endpoints used as examples\<close>

lemma Parse_http_10_0_0_1:
  "Parse ''http://10.0.0.1'' = Inr (new_URL\<lparr>Scheme := ''http'', URL.Host := ''10.0.0.1''\<rparr>)"
  by code_simp

lemma Parse_http_192_168_1_1:
  "Parse ''http://192.168.1.1'' = Inr (new_URL\<lparr>Scheme := ''http'', URL.Host := ''192.168.1.1''\<rparr>)"
  by code_simp

lemma Parse_https_192_168_1_1:
  "Parse ''https://192.168.1.1'' = Inr (new_URL\<lparr>Scheme := ''https'', URL.Host := ''192.168.1.1''\<rparr>)"
  by code_simp

text \<open>
  \<^verbatim>\<open>url.Parse\<close> puts the scheme in lower case, while \<^verbatim>\<open>providerConfigure\<close> looks
  for the prefix \<^verbatim>\<open>https://\<close> as written: an endpoint written \<^verbatim>\<open>HTTPS://...\<close> has
  scheme https and goes through the branch of the other schemes.
\<close>

lemma Parse_upper_case_scheme:
  "Parse ''HTTPS://192.168.1.1'' = Inr (new_URL\<lparr>Scheme := ''https'', URL.Host := ''192.168.1.1''\<rparr>)"
  by code_simp

lemma upper_case_scheme_takes_the_other_branch:
  "HasPrefix ''HTTPS://192.168.1.1'' ''https://'' = False"
  by (simp add: HasPrefix_def)

lemma valid_http_10_0_0_1: "isValidHTTPURL ''http://10.0.0.1'' ''url'' = Returns ([], [])"
  by (simp add: isValidHTTPURL_parsed [OF Parse_http_10_0_0_1] new_URL_def)

lemma valid_http_192_168_1_1: "isValidHTTPURL ''http://192.168.1.1'' ''url'' = Returns ([], [])"
  by (simp add: isValidHTTPURL_parsed [OF Parse_http_192_168_1_1] new_URL_def)

lemma valid_https_192_168_1_1: "isValidHTTPURL ''https://192.168.1.1'' ''url'' = Returns ([], [])"
  by (simp add: isValidHTTPURL_parsed [OF Parse_https_192_168_1_1] new_URL_def)

section \<open>The TLS policy\<close>

text \<open>
  C1. The claim: for every valid endpoint whose scheme is http, with \<^verbatim>\<open>skip_tls\<close>
  unset, resolution succeeds and the flag \<^verbatim>\<open>SkipTLS\<close> handed to the client factory is
  true. The code at such an endpoint: \<^verbatim>\<open>http://10.0.0.1\<close> passes the validator and
  parses with scheme http, resolution succeeds, and the flag is false. The branch for
  an endpoint without the prefix \<^verbatim>\<open>https://\<close> assigns \<^verbatim>\<open>skipTLSExists = true\<close> and
  leaves \<^verbatim>\<open>skipTLSValue\<close> at the zero value that \<^verbatim>\<open>GetOk\<close> returned, although the
  schema describes the setting as defaulting to true unless the url uses HTTPS.
\<close>

theorem C1_http_unset_leaves_SkipTLS_false:
  "isValidHTTPURL ''http://10.0.0.1'' ''url'' = Returns ([], [])
   \<and> Parse ''http://10.0.0.1'' = Inr (new_URL\<lparr>Scheme := ''http'', URL.Host := ''10.0.0.1''\<rparr>)
   \<and> providerConfigure (unset\<lparr>url := Some ''http://10.0.0.1''\<rparr>) =
       Inr (NewClient
         \<lparr>Host = ''http://10.0.0.1'', SkipTLS = False, Timeout = 5000000000,
          JWTAuthEnabled = False, JWTToken = [],
          LocalAuthEnabled = False, User = [], Password = [],
          TokenAuthEnabled = False, ApiClientID = [], ApiClientToken = []\<rparr>)"
proof -
  have "providerConfigure (unset\<lparr>url := Some ''http://10.0.0.1''\<rparr>) =
       Inr (NewClient
         \<lparr>Host = ''http://10.0.0.1'', SkipTLS = False, Timeout = 5000000000,
          JWTAuthEnabled = False, JWTToken = [],
          LocalAuthEnabled = False, User = [], Password = [],
          TokenAuthEnabled = False, ApiClientID = [], ApiClientToken = []\<rparr>)"
    by (simp add: providerConfigure_def unset_def GetOk_String_def GetOk_Bool_def
          Get_String_def Get_Int_def HasPrefix_def timeout_Default_def Second_def)
  then show ?thesis
    by (simp add: valid_http_10_0_0_1 Parse_http_10_0_0_1)
qed

text \<open>
  C2. For every valid endpoint whose scheme is https, with \<^verbatim>\<open>skip_tls\<close> unset, the
  resolved flag \<^verbatim>\<open>SkipTLS\<close> is false: resolution either builds a client for that
  endpoint whose configuration has \<^verbatim>\<open>SkipTLS = false\<close>, or stops at one of the three
  authentication errors; the TLS stage never rejects such a configuration.
\<close>

theorem C2_https_unset_verifies:
  assumes "url d = Some u"
    and "isValidHTTPURL u ''url'' = Returns ([], [])"
    and "Parse u = Inr p" and "Scheme p = ''https''"
    and "skip_tls d = None"
  shows "case providerConfigure d of
           Inr (NewClient c) \<Rightarrow> Host c = u \<and> SkipTLS c = False
         | Inl e \<Rightarrow> e \<in> {PasswordRequired, ApiClientTokenRequired, OnlyOneAuth}"
  using assms by (simp add: providerConfigure_cases Get_String_def)

theorem C2_https_unset_verifies_witness:
  "isValidHTTPURL ''https://192.168.1.1'' ''url'' = Returns ([], [])
   \<and> Parse ''https://192.168.1.1'' = Inr (new_URL\<lparr>Scheme := ''https'', URL.Host := ''192.168.1.1''\<rparr>)
   \<and> (case providerConfigure (unset\<lparr>url := Some ''https://192.168.1.1''\<rparr>) of
         Inr (NewClient c) \<Rightarrow> Host c = ''https://192.168.1.1'' \<and> SkipTLS c = False
       | Inl e \<Rightarrow> e \<in> {PasswordRequired, ApiClientTokenRequired, OnlyOneAuth})
   \<and> (\<exists>c. providerConfigure (unset\<lparr>url := Some ''https://192.168.1.1''\<rparr>) = Inr (NewClient c))"
proof -
  let ?d = "unset\<lparr>url := Some ''https://192.168.1.1''\<rparr>"
  let ?p = "new_URL\<lparr>Scheme := ''https'', URL.Host := ''192.168.1.1''\<rparr>"
  have h1: "url ?d = Some ''https://192.168.1.1''" by simp
  have h2: "Scheme ?p = ''https''" by (simp add: new_URL_def)
  have h3: "skip_tls ?d = None" by (simp add: unset_simps)
  have built: "\<exists>c. providerConfigure ?d = Inr (NewClient c)"
    by (simp add: providerConfigure_cases unset_simps present_simps)
  show ?thesis
    using C2_https_unset_verifies [OF h1 valid_https_192_168_1_1 Parse_https_192_168_1_1 h2 h3]
      built
    by (simp add: valid_https_192_168_1_1 Parse_https_192_168_1_1)
qed

text \<open>
  C3. The claim: when \<^verbatim>\<open>skip_tls\<close> is explicitly given as false and the scheme of the
  endpoint is not https, resolution fails with "Cannot enforce TLS" and no client is
  built. The code at such a configuration: with \<^verbatim>\<open>url = "http://192.168.1.1"\<close> and
  \<^verbatim>\<open>skip_tls = false\<close> it builds a client. \<^verbatim>\<open>GetOk\<close> reports a boolean set to false as
  not set, so the test \<^verbatim>\<open>!skipTLSExists\<close> takes the configuration before the branch
  that returns the error can.
\<close>

theorem C3_explicit_false_on_http_builds_client:
  "isValidHTTPURL ''http://192.168.1.1'' ''url'' = Returns ([], [])
   \<and> Parse ''http://192.168.1.1'' = Inr (new_URL\<lparr>Scheme := ''http'', URL.Host := ''192.168.1.1''\<rparr>)
   \<and> providerConfigure (unset\<lparr>url := Some ''http://192.168.1.1'', skip_tls := Some False\<rparr>) =
       Inr (NewClient
         \<lparr>Host = ''http://192.168.1.1'', SkipTLS = False, Timeout = 5000000000,
          JWTAuthEnabled = False, JWTToken = [],
          LocalAuthEnabled = False, User = [], Password = [],
          TokenAuthEnabled = False, ApiClientID = [], ApiClientToken = []\<rparr>)"
proof -
  have "providerConfigure (unset\<lparr>url := Some ''http://192.168.1.1'', skip_tls := Some False\<rparr>) =
       Inr (NewClient
         \<lparr>Host = ''http://192.168.1.1'', SkipTLS = False, Timeout = 5000000000,
          JWTAuthEnabled = False, JWTToken = [],
          LocalAuthEnabled = False, User = [], Password = [],
          TokenAuthEnabled = False, ApiClientID = [], ApiClientToken = []\<rparr>)"
    by (simp add: providerConfigure_def unset_def GetOk_String_def GetOk_Bool_def
          Get_String_def Get_Int_def HasPrefix_def timeout_Default_def Second_def)
  then show ?thesis
    by (simp add: valid_http_192_168_1_1 Parse_http_192_168_1_1)
qed

section \<open>The authentication settings\<close>

text \<open>
  In the statements below a setting counts as supplied when \<open>present\<close> holds of it, that
  is, when \<^verbatim>\<open>d.GetOk\<close> reports it: the practitioner gave it a value other than the
  empty string. A setting given as \<^verbatim>\<open>""\<close> is an absent setting to the provider.
\<close>

text \<open>
  C4. For every configuration that supplies exactly one complete authentication group
  (only \<^verbatim>\<open>jwt_token\<close>; or only \<^verbatim>\<open>user\<close> together with \<^verbatim>\<open>password\<close>; or only
  \<^verbatim>\<open>api_client_id\<close> together with \<^verbatim>\<open>api_client_token\<close>), resolution succeeds, the
  client configuration has the flag of that mode set and carries the supplied
  credentials, and the flags of the other two modes are false.
\<close>

theorem C4_single_complete_group:
  "(present (jwt_token d) \<and> \<not> present (user d) \<and> \<not> present (password d)
      \<and> \<not> present (api_client_id d) \<and> \<not> present (api_client_token d)
    \<longrightarrow> (\<exists>c. providerConfigure d = Inr (NewClient c)
            \<and> JWTAuthEnabled c \<and> jwt_token d = Some (JWTToken c)
            \<and> \<not> LocalAuthEnabled c \<and> \<not> TokenAuthEnabled c))
   \<and> (present (user d) \<and> present (password d) \<and> \<not> present (jwt_token d)
      \<and> \<not> present (api_client_id d) \<and> \<not> present (api_client_token d)
    \<longrightarrow> (\<exists>c. providerConfigure d = Inr (NewClient c)
            \<and> LocalAuthEnabled c \<and> user d = Some (User c) \<and> password d = Some (Password c)
            \<and> \<not> JWTAuthEnabled c \<and> \<not> TokenAuthEnabled c))
   \<and> (present (api_client_id d) \<and> present (api_client_token d) \<and> \<not> present (jwt_token d)
      \<and> \<not> present (user d) \<and> \<not> present (password d)
    \<longrightarrow> (\<exists>c. providerConfigure d = Inr (NewClient c)
            \<and> TokenAuthEnabled c \<and> api_client_id d = Some (ApiClientID c)
            \<and> api_client_token d = Some (ApiClientToken c)
            \<and> \<not> JWTAuthEnabled c \<and> \<not> LocalAuthEnabled c))"
proof (intro conjI impI)
  assume h: "present (jwt_token d) \<and> \<not> present (user d) \<and> \<not> present (password d)
      \<and> \<not> present (api_client_id d) \<and> \<not> present (api_client_token d)"
  then obtain t where "jwt_token d = Some t"
    by (cases "jwt_token d") (simp_all add: present_simps)
  with h show "\<exists>c. providerConfigure d = Inr (NewClient c)
            \<and> JWTAuthEnabled c \<and> jwt_token d = Some (JWTToken c)
            \<and> \<not> LocalAuthEnabled c \<and> \<not> TokenAuthEnabled c"
    by (simp add: providerConfigure_cases Get_String_def)
next
  assume h: "present (user d) \<and> present (password d) \<and> \<not> present (jwt_token d)
      \<and> \<not> present (api_client_id d) \<and> \<not> present (api_client_token d)"
  then obtain u p where "user d = Some u" "password d = Some p"
    by (cases "user d"; cases "password d") (simp_all add: present_simps)
  with h show "\<exists>c. providerConfigure d = Inr (NewClient c)
            \<and> LocalAuthEnabled c \<and> user d = Some (User c) \<and> password d = Some (Password c)
            \<and> \<not> JWTAuthEnabled c \<and> \<not> TokenAuthEnabled c"
    by (simp add: providerConfigure_cases Get_String_def)
next
  assume h: "present (api_client_id d) \<and> present (api_client_token d) \<and> \<not> present (jwt_token d)
      \<and> \<not> present (user d) \<and> \<not> present (password d)"
  then obtain i t where "api_client_id d = Some i" "api_client_token d = Some t"
    by (cases "api_client_id d"; cases "api_client_token d") (simp_all add: present_simps)
  with h show "\<exists>c. providerConfigure d = Inr (NewClient c)
            \<and> TokenAuthEnabled c \<and> api_client_id d = Some (ApiClientID c)
            \<and> api_client_token d = Some (ApiClientToken c)
            \<and> \<not> JWTAuthEnabled c \<and> \<not> LocalAuthEnabled c"
    by (simp add: providerConfigure_cases Get_String_def)
qed

theorem C4_single_complete_group_witness:
  "(\<exists>c. providerConfigure (unset\<lparr>url := Some ''https://192.168.1.1'', jwt_token := Some ''y''\<rparr>)
          = Inr (NewClient c)
        \<and> JWTAuthEnabled c \<and> JWTToken c = ''y''
        \<and> \<not> LocalAuthEnabled c \<and> \<not> TokenAuthEnabled c)
   \<and> (\<exists>c. providerConfigure
            (unset\<lparr>url := Some ''https://192.168.1.1'', user := Some ''admin'',
               password := Some ''x''\<rparr>) = Inr (NewClient c)
        \<and> LocalAuthEnabled c \<and> User c = ''admin'' \<and> Password c = ''x''
        \<and> \<not> JWTAuthEnabled c \<and> \<not> TokenAuthEnabled c)
   \<and> (\<exists>c. providerConfigure
            (unset\<lparr>url := Some ''https://192.168.1.1'', api_client_id := Some ''id'',
               api_client_token := Some ''tok''\<rparr>) = Inr (NewClient c)
        \<and> TokenAuthEnabled c \<and> ApiClientID c = ''id'' \<and> ApiClientToken c = ''tok''
        \<and> \<not> JWTAuthEnabled c \<and> \<not> LocalAuthEnabled c)"
proof -
  let ?dJ = "unset\<lparr>url := Some ''https://192.168.1.1'', jwt_token := Some ''y''\<rparr>"
  let ?dL = "unset\<lparr>url := Some ''https://192.168.1.1'', user := Some ''admin'',
               password := Some ''x''\<rparr>"
  let ?dT = "unset\<lparr>url := Some ''https://192.168.1.1'', api_client_id := Some ''id'',
               api_client_token := Some ''tok''\<rparr>"
  have hJ: "present (jwt_token ?dJ) \<and> \<not> present (user ?dJ) \<and> \<not> present (password ?dJ)
      \<and> \<not> present (api_client_id ?dJ) \<and> \<not> present (api_client_token ?dJ)"
    by (simp add: unset_simps present_simps)
  have hL: "present (user ?dL) \<and> present (password ?dL) \<and> \<not> present (jwt_token ?dL)
      \<and> \<not> present (api_client_id ?dL) \<and> \<not> present (api_client_token ?dL)"
    by (simp add: unset_simps present_simps)
  have hT: "present (api_client_id ?dT) \<and> present (api_client_token ?dT)
      \<and> \<not> present (jwt_token ?dT) \<and> \<not> present (user ?dT) \<and> \<not> present (password ?dT)"
    by (simp add: unset_simps present_simps)
  have J: "\<exists>c. providerConfigure ?dJ = Inr (NewClient c)
            \<and> JWTAuthEnabled c \<and> jwt_token ?dJ = Some (JWTToken c)
            \<and> \<not> LocalAuthEnabled c \<and> \<not> TokenAuthEnabled c"
    using C4_single_complete_group [of ?dJ] hJ by blast
  have L: "\<exists>c. providerConfigure ?dL = Inr (NewClient c)
            \<and> LocalAuthEnabled c \<and> user ?dL = Some (User c) \<and> password ?dL = Some (Password c)
            \<and> \<not> JWTAuthEnabled c \<and> \<not> TokenAuthEnabled c"
    using C4_single_complete_group [of ?dL] hL by blast
  have T: "\<exists>c. providerConfigure ?dT = Inr (NewClient c)
            \<and> TokenAuthEnabled c \<and> api_client_id ?dT = Some (ApiClientID c)
            \<and> api_client_token ?dT = Some (ApiClientToken c)
            \<and> \<not> JWTAuthEnabled c \<and> \<not> LocalAuthEnabled c"
    using C4_single_complete_group [of ?dT] hT by blast
  from J L T show ?thesis by (simp add: eq_commute)
qed

text \<open>
  C5. For every configuration that supplies \<^verbatim>\<open>user\<close> without \<^verbatim>\<open>password\<close>, or
  \<^verbatim>\<open>api_client_id\<close> without \<^verbatim>\<open>api_client_token\<close>, resolution fails with a
  missing-credential error, whatever the other settings are (\<^verbatim>\<open>jwt_token\<close> included):
  "password is required" when the password is the missing one, and
  "api_client_token is required" otherwise.
\<close>

theorem C5_missing_credential:
  assumes "(present (user d) \<and> \<not> present (password d))
         \<or> (present (api_client_id d) \<and> \<not> present (api_client_token d))"
  shows "providerConfigure d =
           Inl (if present (user d) \<and> \<not> present (password d) then PasswordRequired
                else ApiClientTokenRequired)"
  using assms by (auto simp: providerConfigure_cases)

theorem C5_missing_credential_witness:
  "providerConfigure
     (unset\<lparr>url := Some ''https://192.168.1.1'', user := Some ''admin'', jwt_token := Some ''y''\<rparr>)
     = Inl PasswordRequired
   \<and> providerConfigure
     (unset\<lparr>url := Some ''https://192.168.1.1'', api_client_id := Some ''id'',
        jwt_token := Some ''y''\<rparr>)
     = Inl ApiClientTokenRequired"
proof -
  let ?dU = "unset\<lparr>url := Some ''https://192.168.1.1'', user := Some ''admin'',
               jwt_token := Some ''y''\<rparr>"
  let ?dI = "unset\<lparr>url := Some ''https://192.168.1.1'', api_client_id := Some ''id'',
               jwt_token := Some ''y''\<rparr>"
  have hU: "present (user ?dU) \<and> \<not> present (password ?dU)"
    by (simp add: unset_simps present_simps)
  have hI: "present (api_client_id ?dI) \<and> \<not> present (api_client_token ?dI)"
    and nU: "\<not> present (user ?dI)"
    by (simp_all add: unset_simps present_simps)
  from C5_missing_credential [of ?dU] hU
  have U: "providerConfigure ?dU = Inl PasswordRequired" by simp
  from C5_missing_credential [of ?dI] hI nU
  have I: "providerConfigure ?dI = Inl ApiClientTokenRequired" by simp
  from U I show ?thesis by simp
qed

text \<open>
  C6, as amended. For every configuration that supplies two or more complete
  authentication groups and no incomplete one (no \<^verbatim>\<open>user\<close> without \<^verbatim>\<open>password\<close>, no
  \<^verbatim>\<open>api_client_id\<close> without \<^verbatim>\<open>api_client_token\<close>), resolution fails with
  "only one form of authentication should be provided".
\<close>

theorem C6_two_complete_groups_and_none_incomplete:
  assumes "(present (jwt_token d) \<and> present (user d) \<and> present (password d))
         \<or> (present (jwt_token d) \<and> present (api_client_id d) \<and> present (api_client_token d))
         \<or> (present (user d) \<and> present (password d)
            \<and> present (api_client_id d) \<and> present (api_client_token d))"
    and "present (user d) \<longrightarrow> present (password d)"
    and "present (api_client_id d) \<longrightarrow> present (api_client_token d)"
  shows "providerConfigure d = Inl OnlyOneAuth"
  using assms by (auto simp: providerConfigure_cases)

theorem C6_two_complete_groups_and_none_incomplete_witness:
  "providerConfigure
     (unset\<lparr>url := Some ''https://192.168.1.1'', user := Some ''admin'', password := Some ''x'',
        jwt_token := Some ''y''\<rparr>)
     = Inl OnlyOneAuth"
proof -
  let ?d = "unset\<lparr>url := Some ''https://192.168.1.1'', user := Some ''admin'',
              password := Some ''x'', jwt_token := Some ''y''\<rparr>"
  have two: "(present (jwt_token ?d) \<and> present (user ?d) \<and> present (password ?d))
         \<or> (present (jwt_token ?d) \<and> present (api_client_id ?d) \<and> present (api_client_token ?d))
         \<or> (present (user ?d) \<and> present (password ?d)
            \<and> present (api_client_id ?d) \<and> present (api_client_token ?d))"
    by (simp add: unset_simps present_simps)
  have local: "present (user ?d) \<longrightarrow> present (password ?d)"
    by (simp add: unset_simps present_simps)
  have token: "present (api_client_id ?d) \<longrightarrow> present (api_client_token ?d)"
    by (simp add: unset_simps present_simps)
  show ?thesis
    by (rule C6_two_complete_groups_and_none_incomplete [OF two local token])
qed

text \<open>
  C6 as first stated asks for the ambiguity error whenever two complete groups are
  supplied. The two missing-credential checks run before the modes are counted: with
  \<^verbatim>\<open>jwt_token\<close>, \<^verbatim>\<open>user\<close> and \<^verbatim>\<open>password\<close> supplied and an \<^verbatim>\<open>api_client_id\<close>
  without its token, the error is "api_client_token is required".
\<close>

theorem C6_incomplete_third_group_counterexample:
  "present (jwt_token
      (unset\<lparr>url := Some ''https://192.168.1.1'', user := Some ''admin'', password := Some ''x'',
         jwt_token := Some ''y'', api_client_id := Some ''id''\<rparr>))
   \<and> present (user
      (unset\<lparr>url := Some ''https://192.168.1.1'', user := Some ''admin'', password := Some ''x'',
         jwt_token := Some ''y'', api_client_id := Some ''id''\<rparr>))
   \<and> present (password
      (unset\<lparr>url := Some ''https://192.168.1.1'', user := Some ''admin'', password := Some ''x'',
         jwt_token := Some ''y'', api_client_id := Some ''id''\<rparr>))
   \<and> providerConfigure
      (unset\<lparr>url := Some ''https://192.168.1.1'', user := Some ''admin'', password := Some ''x'',
         jwt_token := Some ''y'', api_client_id := Some ''id''\<rparr>)
     = Inl ApiClientTokenRequired
   \<and> providerConfigure
      (unset\<lparr>url := Some ''https://192.168.1.1'', user := Some ''admin'', password := Some ''x'',
         jwt_token := Some ''y'', api_client_id := Some ''id''\<rparr>)
     \<noteq> Inl OnlyOneAuth"
  by (simp add: providerConfigure_def unset_def present_def GetOk_String_def GetOk_Bool_def
        Get_String_def Get_Int_def HasPrefix_def)

text \<open>
  C7. For every configuration in which none of \<^verbatim>\<open>user\<close>, \<^verbatim>\<open>password\<close>,
  \<^verbatim>\<open>jwt_token\<close>, \<^verbatim>\<open>api_client_id\<close> and \<^verbatim>\<open>api_client_token\<close> is present, resolution
  succeeds and the three flags \<^verbatim>\<open>JWTAuthEnabled\<close>, \<^verbatim>\<open>LocalAuthEnabled\<close> and
  \<^verbatim>\<open>TokenAuthEnabled\<close> of the client configuration are false. This holds for every
  endpoint, the valid ones among them.
\<close>

theorem C7_no_auth_settings:
  assumes "\<not> present (user d)" and "\<not> present (password d)" and "\<not> present (jwt_token d)"
    and "\<not> present (api_client_id d)" and "\<not> present (api_client_token d)"
  shows "\<exists>c. providerConfigure d = Inr (NewClient c)
           \<and> \<not> JWTAuthEnabled c \<and> \<not> LocalAuthEnabled c \<and> \<not> TokenAuthEnabled c"
  using assms by (simp add: providerConfigure_cases)

theorem C7_no_auth_settings_witness:
  "isValidHTTPURL ''https://192.168.1.1'' ''url'' = Returns ([], [])
   \<and> (\<exists>c. providerConfigure (unset\<lparr>url := Some ''https://192.168.1.1''\<rparr>) = Inr (NewClient c)
           \<and> \<not> JWTAuthEnabled c \<and> \<not> LocalAuthEnabled c \<and> \<not> TokenAuthEnabled c
           \<and> \<not> SkipTLS c)"
proof -
  let ?d = "unset\<lparr>url := Some ''https://192.168.1.1''\<rparr>"
  have absent: "\<not> present (user ?d)" "\<not> present (password ?d)" "\<not> present (jwt_token ?d)"
    "\<not> present (api_client_id ?d)" "\<not> present (api_client_token ?d)"
    by (simp_all add: unset_simps present_simps)
  from C7_no_auth_settings [OF absent]
  obtain c where c: "providerConfigure ?d = Inr (NewClient c)"
    "\<not> JWTAuthEnabled c" "\<not> LocalAuthEnabled c" "\<not> TokenAuthEnabled c"
    by blast
  have "\<not> SkipTLS c"
    using SkipTLS_only_when_set_true [OF c(1)] by (simp add: unset_simps)
  with c show ?thesis
    by (auto simp: valid_https_192_168_1_1)
qed

section \<open>The validator\<close>

text \<open>
  C8. The claim: for every candidate string the validator reports an error unless the
  string parses as a URL with scheme http or https and empty path, query and fragment.
  For a string that parses this is what the validator does
  (\<open>isValidHTTPURL_parsed\<close>, \<open>isValidHTTPURL_accepts_iff\<close>,
  \<open>isValidHTTPURL_rejects_components\<close>). For a string that does not parse it reports
  nothing: \<^verbatim>\<open>192.168.1.1:443\<close>, an address written without its scheme, fails to parse
  (the first path segment holds a colon), and the validator panics on the nil
  \<^verbatim>\<open>*URL\<close>.
\<close>

theorem C8_host_and_port_without_scheme_panics:
  "Parse ''192.168.1.1:443'' = Inl FirstPathSegmentColon
   \<and> isValidHTTPURL ''192.168.1.1:443'' ''url'' = Panics NilPointerDereference"
proof -
  have "Parse ''192.168.1.1:443'' = Inl FirstPathSegmentColon"
    by code_simp
  then show ?thesis
    by (simp add: isValidHTTPURL.simps)
qed

text \<open>
  C10. The claim: the validator returns a list of errors for every input string and
  never crashes, also when parsing fails. The code at \<^verbatim>\<open>://10.0.0.1\<close>: parsing fails
  (missing protocol scheme), and the read of \<^verbatim>\<open>url.Path\<close> panics.
\<close>

theorem C10_missing_scheme_panics:
  "Parse ''://10.0.0.1'' = Inl MissingProtocolScheme
   \<and> isValidHTTPURL ''://10.0.0.1'' ''url'' = Panics NilPointerDereference"
proof -
  have "Parse ''://10.0.0.1'' = Inl MissingProtocolScheme"
    by code_simp
  then show ?thesis
    by (simp add: isValidHTTPURL.simps)
qed

section \<open>The request timeout\<close>

text \<open>
  C9, as amended. Whenever resolution builds a client: with \<^verbatim>\<open>timeout\<close> unset its
  \<^verbatim>\<open>Timeout\<close> is 5 seconds, and with \<^verbatim>\<open>timeout\<close> set to \<open>n\<close>, where
  \<open>-9223372036 \<le> n \<le> 9223372036\<close>, it is exactly \<open>n\<close> seconds (\<open>n\<close> times
  \<open>10\<^sup>9\<close> nanoseconds, read as a signed number).
\<close>

theorem C9_timeout_seconds_in_range:
  assumes "providerConfigure d = Inr (NewClient c)"
  shows "(timeout d = None \<longrightarrow> sint (Timeout c) = 5 * 1000000000)
       \<and> (\<forall>n. timeout d = Some n \<and> - 9223372036 \<le> sint n \<and> sint n \<le> 9223372036
              \<longrightarrow> sint (Timeout c) = sint n * 1000000000)"
proof -
  have t: "Timeout c = Get_Int timeout_Default (timeout d) * Second"
    by (rule Timeout_of_client [OF assms])
  have dflt: "sint (timeout_Default * Second) = 5 * 1000000000"
    by (simp add: timeout_Default_def Second_def)
  show ?thesis
    using t dflt by (auto simp: Get_Int_def seconds_in_range)
qed

theorem C9_timeout_seconds_in_range_witness:
  "(\<exists>c. providerConfigure (unset\<lparr>url := Some ''https://192.168.1.1''\<rparr>) = Inr (NewClient c)
        \<and> sint (Timeout c) = 5000000000)
   \<and> (\<exists>c. providerConfigure (unset\<lparr>url := Some ''https://192.168.1.1'', timeout := Some 30\<rparr>)
          = Inr (NewClient c)
        \<and> sint (Timeout c) = 30000000000)"
proof -
  let ?d5 = "unset\<lparr>url := Some ''https://192.168.1.1''\<rparr>"
  let ?d30 = "unset\<lparr>url := Some ''https://192.168.1.1'', timeout := Some 30\<rparr>"
  obtain c5 where c5: "providerConfigure ?d5 = Inr (NewClient c5)"
    by (simp add: providerConfigure_cases unset_simps present_simps)
  obtain c30 where c30: "providerConfigure ?d30 = Inr (NewClient c30)"
    by (simp add: providerConfigure_cases unset_simps present_simps)
  have "sint (Timeout c5) = 5000000000"
    using C9_timeout_seconds_in_range [OF c5] by (simp add: unset_simps)
  moreover have "sint (Timeout c30) = 30000000000"
    using C9_timeout_seconds_in_range [OF c30] by (simp add: unset_simps)
  ultimately show ?thesis
    using c5 c30 by simp
qed

text \<open>
  C9 as first stated holds for every \<open>n\<close>. A \<^verbatim>\<open>Duration\<close> counts nanoseconds in 64
  bits, and \<^verbatim>\<open>time.Duration(n) * time.Second\<close> wraps around: with
  \<^verbatim>\<open>timeout = 9223372037\<close> the product is negative, about minus 292 years.
\<close>

theorem C9_timeout_overflow_counterexample:
  "providerConfigure (unset\<lparr>url := Some ''https://192.168.1.1'', timeout := Some 9223372037\<rparr>) =
     Inr (NewClient
       \<lparr>Host = ''https://192.168.1.1'', SkipTLS = False, Timeout = 9223372037000000000,
        JWTAuthEnabled = False, JWTToken = [],
        LocalAuthEnabled = False, User = [], Password = [],
        TokenAuthEnabled = False, ApiClientID = [], ApiClientToken = []\<rparr>)
   \<and> sint (9223372037 :: go_int) = 9223372037
   \<and> sint (9223372037000000000 :: Duration) = - 9223372036709551616
   \<and> sint (9223372037000000000 :: Duration) \<noteq> sint (9223372037 :: go_int) * 1000000000"
  by (simp add: providerConfigure_def unset_def GetOk_String_def GetOk_Bool_def
        Get_String_def Get_Int_def HasPrefix_def timeout_Default_def Second_def)

end
